theory Spec2Isabelle
  imports Complex_Main
begin

section \<open>Python values used by Prayer.py\<close>

text \<open>
  The program computes with Python floats. They are modelled as the real numbers: every
  formula of the source is kept operation by operation, and rounding is left out. The
  exceptions the source can raise are values of \<open>py_error\<close>; a function that can raise
  returns \<open>py_error + 'a\<close>.
\<close>

datatype py_error = ZeroDivisionError | ValueError | OverflowError | UnknownTimeZoneError

text \<open>The fields of a \<open>datetime\<close> object that the program reads: \<open>date.year\<close>,
  \<open>date.month\<close>, \<open>date.day\<close>.\<close>

record pydate =
  year :: int
  month :: int
  day :: int

text \<open>\<open>int(x)\<close> on a float truncates towards zero.\<close>

definition py_int :: "real \<Rightarrow> int" where
  "py_int x = (if 0 \<le> x then \<lfloor>x\<rfloor> else \<lceil>x\<rceil>)"

section \<open>julian_day\<close>

text \<open>
  \<^verbatim>\<open>
  def julian_day(year, month, day):
      if month <= 2:
          year -= 1
          month += 12
      A = year // 100
      B = 2 - A + (A // 4)
      JD = int(365.25*(year + 4716)) + int(30.6001*(month + 1)) + day + B - 1524.5
      return JD
  \<close>
  Python's \<open>//\<close> on integers is floor division, which is \<open>div\<close> on \<open>int\<close>.
\<close>

definition julian_day :: "int \<Rightarrow> int \<Rightarrow> int \<Rightarrow> real" where
  "julian_day y m d =
     (let y' = (if m \<le> 2 then y - 1 else y);
          m' = (if m \<le> 2 then m + 12 else m);
          A = y' div 100;
          B = 2 - A + (A div 4)
      in real_of_int (py_int (365.25 * real_of_int (y' + 4716))
                      + py_int (30.6001 * real_of_int (m' + 1)) + d + B) - 1524.5)"

subsection \<open>The Gregorian calendar, to state what the next day is\<close>

definition is_leap :: "int \<Rightarrow> bool" where
  "is_leap y = (y mod 4 = 0 \<and> (y mod 100 \<noteq> 0 \<or> y mod 400 = 0))"

definition days_in_month :: "int \<Rightarrow> int \<Rightarrow> int" where
  "days_in_month y m =
     (if m = 2 then (if is_leap y then 29 else 28)
      else if m = 4 \<or> m = 6 \<or> m = 9 \<or> m = 11 then 30 else 31)"

definition valid_date :: "int \<Rightarrow> int \<Rightarrow> int \<Rightarrow> bool" where
  "valid_date y m d = (1 \<le> m \<and> m \<le> 12 \<and> 1 \<le> d \<and> d \<le> days_in_month y m)"

definition next_day :: "int \<Rightarrow> int \<Rightarrow> int \<Rightarrow> int \<times> int \<times> int" where
  "next_day y m d =
     (if d < days_in_month y m then (y, m, d + 1)
      else if m < 12 then (y, m + 1, 1)
      else (y + 1, 1, 1))"

text \<open>The integer part of \<open>julian_day\<close>, for an already shifted year and month.\<close>

definition jdn :: "int \<Rightarrow> int \<Rightarrow> int \<Rightarrow> int" where
  "jdn y m d = (1461 * (y + 4716)) div 4 + (306001 * (m + 1)) div 10000 + d
               + (2 - y div 100 + (y div 100) div 4)"

section \<open>The math module\<close>

definition radians :: "real \<Rightarrow> real" where
  "radians x = x * pi / 180"

definition degrees :: "real \<Rightarrow> real" where
  "degrees x = x * 180 / pi"

text \<open>
  \<open>x % y\<close> on floats is C's \<open>fmod\<close> (the remainder of the division truncated towards
  zero, with the sign of \<open>x\<close>), moved by \<open>y\<close> when its sign differs from the sign of
  \<open>y\<close>. The program only divides by the constant 360.
\<close>

definition fmod :: "real \<Rightarrow> real \<Rightarrow> real" where
  "fmod x y = x - y * real_of_int (py_int (x / y))"

definition py_mod :: "real \<Rightarrow> real \<Rightarrow> real" where
  "py_mod x y =
     (let r = fmod x y
      in if r = 0 then 0 else if (y < 0) = (r < 0) then r else r + y)"

text \<open>\<open>math.asin\<close> and \<open>math.acos\<close> raise ValueError (math domain error) outside
  \<open>[-1, 1]\<close>.\<close>

definition py_asin :: "real \<Rightarrow> py_error + real" where
  "py_asin x = (if - 1 \<le> x \<and> x \<le> 1 then Inr (arcsin x) else Inl ValueError)"

definition py_acos :: "real \<Rightarrow> py_error + real" where
  "py_acos x = (if - 1 \<le> x \<and> x \<le> 1 then Inr (arccos x) else Inl ValueError)"

text \<open>\<open>math.atan2(y, x)\<close>: the angle of the point \<open>(x, y)\<close>, in \<open>(-pi, pi]\<close>.\<close>

definition py_atan2 :: "real \<Rightarrow> real \<Rightarrow> real" where
  "py_atan2 y x =
     (if 0 < x then arctan (y / x)
      else if x < 0 then (if 0 \<le> y then arctan (y / x) + pi else arctan (y / x) - pi)
      else if 0 < y then pi / 2
      else if y < 0 then - (pi / 2)
      else 0)"

text \<open>Float division raises ZeroDivisionError on a zero divisor.\<close>

definition py_div :: "real \<Rightarrow> real \<Rightarrow> py_error + real" where
  "py_div a b = (if b = 0 then Inl ZeroDivisionError else Inr (a / b))"

text \<open>Sequencing: the first exception raised ends the computation.\<close>

definition err_bind :: "py_error + 'a \<Rightarrow> ('a \<Rightarrow> py_error + 'b) \<Rightarrow> py_error + 'b" where
  "err_bind r f = (case r of Inl e \<Rightarrow> Inl e | Inr v \<Rightarrow> f v)"

section \<open>solar_declination, equation_of_time, solar_noon\<close>

text \<open>
  \<^verbatim>\<open>
  def solar_declination(JD):
      n = JD - 2451545.0
      g = math.radians((357.529 + 0.98560028 * n) % 360)
      q = (280.459 + 0.98564736 * n) % 360
      L = (q + 1.915 * math.sin(g) + 0.020 * math.sin(2*g)) % 360
      e = math.radians(23.439 - 0.00000036 * n)
      sin_decl = math.sin(e) * math.sin(math.radians(L))
      return math.asin(sin_decl)
  \<close>
\<close>

definition solar_declination :: "real \<Rightarrow> py_error + real" where
  "solar_declination JD =
     (let n = JD - 2451545.0;
          g = radians (py_mod (357.529 + 0.98560028 * n) 360);
          q = py_mod (280.459 + 0.98564736 * n) 360;
          L = py_mod (q + 1.915 * sin g + 0.020 * sin (2 * g)) 360;
          e = radians (23.439 - 0.00000036 * n);
          sin_decl = sin e * sin (radians L)
      in py_asin sin_decl)"

text \<open>
  \<^verbatim>\<open>
  def equation_of_time(JD):
      n = JD - 2451545.0
      g = math.radians((357.529 + 0.98560028 * n) % 360)
      q = (280.459 + 0.98564736 * n) % 360
      L = (q + 1.915 * math.sin(g) + 0.020 * math.sin(2*g)) % 360
      e = math.radians(23.439 - 0.00000036 * n)
      RA = math.degrees(math.atan2(math.cos(e)*math.sin(math.radians(L)),
                                   math.cos(math.radians(L)))) % 360
      eq_time = q/15 - RA/15
      if eq_time > 12:
          eq_time -= 24
      elif eq_time < -12:
          eq_time += 24
      return eq_time * 60
  \<close>
  \<open>eq_time_hours\<close> is the value of the variable \<open>eq_time\<close> when the \<open>return\<close> is
  reached; \<open>equation_of_time\<close> is the value returned.
\<close>

definition eq_time_hours :: "real \<Rightarrow> real" where
  "eq_time_hours JD =
     (let n = JD - 2451545.0;
          g = radians (py_mod (357.529 + 0.98560028 * n) 360);
          q = py_mod (280.459 + 0.98564736 * n) 360;
          L = py_mod (q + 1.915 * sin g + 0.020 * sin (2 * g)) 360;
          e = radians (23.439 - 0.00000036 * n);
          RA = py_mod (degrees (py_atan2 (cos e * sin (radians L)) (cos (radians L)))) 360;
          eq_time = q / 15 - RA / 15
      in if eq_time > 12 then eq_time - 24
         else if eq_time < - 12 then eq_time + 24
         else eq_time)"

definition equation_of_time :: "real \<Rightarrow> real" where
  "equation_of_time JD = eq_time_hours JD * 60"

text \<open>
  \<^verbatim>\<open>
  def solar_noon(longitude, JD):
      eqt = equation_of_time(JD)
      noon = 12 - (longitude / 15) - (eqt / 60)
      return noon
  \<close>
\<close>

definition solar_noon :: "real \<Rightarrow> real \<Rightarrow> real" where
  "solar_noon longitude JD =
     (let eqt = equation_of_time JD;
          noon = 12 - (longitude / 15) - (eqt / 60)
      in noon)"

subsection \<open>The solar position as the specification words it\<close>

text \<open>Normalisation of an angle in degrees into \<open>[0, 360)\<close>.\<close>

definition norm360 :: "real \<Rightarrow> real" where
  "norm360 x = x - 360 * real_of_int \<lfloor>x / 360\<rfloor>"

definition mean_anomaly :: "real \<Rightarrow> real" where
  "mean_anomaly n = norm360 (357.529 + 0.98560028 * n)"

definition mean_longitude :: "real \<Rightarrow> real" where
  "mean_longitude n = norm360 (280.459 + 0.98564736 * n)"

definition ecliptic_longitude :: "real \<Rightarrow> real" where
  "ecliptic_longitude n =
     norm360 (mean_longitude n + 1.915 * sin (radians (mean_anomaly n))
                               + 0.020 * sin (2 * radians (mean_anomaly n)))"

definition obliquity :: "real \<Rightarrow> real" where
  "obliquity n = 23.439 - 0.00000036 * n"

definition spec_declination :: "real \<Rightarrow> real" where
  "spec_declination JD =
     arcsin (sin (radians (obliquity (JD - 2451545.0)))
             * sin (radians (ecliptic_longitude (JD - 2451545.0))))"

section \<open>Dates, time zones and formatting\<close>

text \<open>
  The \<open>datetime\<close> constructor (and \<open>replace\<close>) accepts years 1 to 9999 and real
  calendar days only, hours 0 to 23 and minutes 0 to 59; anything else raises ValueError.
\<close>

definition valid_pydate :: "pydate \<Rightarrow> bool" where
  "valid_pydate date =
     (1 \<le> year date \<and> year date \<le> 9999 \<and> valid_date (year date) (month date) (day date))"

definition py_datetime :: "pydate \<Rightarrow> int \<Rightarrow> int \<Rightarrow> py_error + (pydate \<times> int \<times> int)" where
  "py_datetime date hr mn =
     (if valid_pydate date \<and> 0 \<le> hr \<and> hr \<le> 23 \<and> 0 \<le> mn \<and> mn \<le> 59
      then Inr (date, hr, mn) else Inl ValueError)"

definition is_min_date :: "pydate \<Rightarrow> bool" where
  "is_min_date date = (year date = 1 \<and> month date = 1 \<and> day date = 1)"

definition is_max_date :: "pydate \<Rightarrow> bool" where
  "is_max_date date = (year date = 9999 \<and> month date = 12 \<and> day date = 31)"

text \<open>
  The time zone database of \<open>pytz\<close> is a parameter: it maps an identifier to a zone,
  and a zone gives the offset from UTC, in seconds, at a UTC date, hour and minute. An
  identifier that the database does not know raises UnknownTimeZoneError.
\<close>

type_synonym tzinfo = "pydate \<Rightarrow> int \<Rightarrow> int \<Rightarrow> int"

type_synonym tzdb = "string \<Rightarrow> tzinfo option"

definition pytz_timezone :: "tzdb \<Rightarrow> string \<Rightarrow> py_error + tzinfo" where
  "pytz_timezone db name =
     (case db name of None \<Rightarrow> Inl UnknownTimeZoneError | Some z \<Rightarrow> Inr z)"

text \<open>
  \<open>dt.astimezone(z)\<close> for a UTC \<open>dt\<close> adds the offset of the zone; the hour and minute
  of the result are what \<open>strftime("%H:%M")\<close> prints. Leaving the range of dates
  (before 0001-01-01 or after 9999-12-31) raises OverflowError.
\<close>

definition astimezone_hm :: "pydate \<Rightarrow> int \<Rightarrow> int \<Rightarrow> tzinfo \<Rightarrow> py_error + (int \<times> int)" where
  "astimezone_hm date hr mn z =
     (let s = hr * 3600 + mn * 60 + z date hr mn
      in if s < 0 \<and> is_min_date date then Inl OverflowError
         else if 86400 \<le> s \<and> is_max_date date then Inl OverflowError
         else Inr ((s div 3600) mod 24, (s div 60) mod 60))"

definition two_digits :: "int \<Rightarrow> string" where
  "two_digits n = [''0123456789'' ! nat (n div 10), ''0123456789'' ! nat (n mod 10)]"

definition strftime_HM :: "int \<times> int \<Rightarrow> string" where
  "strftime_HM hm = two_digits (fst hm) @ '':'' @ two_digits (snd hm)"

text \<open>
  \<open>datetime.strptime(s, "%H:%M")\<close>: one or two digits, a colon, one or two digits, and
  nothing else; the hour at most 23 and the minute at most 59. Anything else raises
  ValueError.
\<close>

definition is_digit :: "char \<Rightarrow> bool" where
  "is_digit c = (c \<in> set ''0123456789'')"

definition digit_val :: "char \<Rightarrow> int" where
  "digit_val c = int (of_char c) - 48"

definition parse_num :: "string \<Rightarrow> int option" where
  "parse_num s =
     (case s of
        [a] \<Rightarrow> if is_digit a then Some (digit_val a) else None
      | [a, b] \<Rightarrow> if is_digit a \<and> is_digit b then Some (10 * digit_val a + digit_val b)
                  else None
      | _ \<Rightarrow> None)"

definition strptime_HM :: "string \<Rightarrow> py_error + (int \<times> int)" where
  "strptime_HM s =
     (let hs = takeWhile (\<lambda>c. c \<noteq> CHR '':'') s;
          rest = dropWhile (\<lambda>c. c \<noteq> CHR '':'') s
      in case rest of
           [] \<Rightarrow> Inl ValueError
         | c # ms \<Rightarrow>
             (case parse_num hs of
                None \<Rightarrow> Inl ValueError
              | Some h \<Rightarrow>
                  (case parse_num ms of
                     None \<Rightarrow> Inl ValueError
                   | Some m \<Rightarrow> if h \<le> 23 \<and> m \<le> 59 then Inr (h, m) else Inl ValueError)))"

text \<open>\<open>timedelta / int\<close> rounds the quotient of the microseconds to the nearest integer,
  ties to even.\<close>

definition divide_and_round :: "int \<Rightarrow> int \<Rightarrow> int" where
  "divide_and_round a b =
     (let q = a div b; r = a mod b
      in if b < 2 * r then q + 1
         else if 2 * r = b \<and> q mod 2 = 1 then q + 1
         else q)"

section \<open>asr_time\<close>

text \<open>
  \<^verbatim>\<open>
  def asr_time(lat, lon, date, shadow_len, tz):
      JD = julian_day(date.year, date.month, date.day)
      decl = solar_declination(JD)
      noon_utc = solar_noon(lon, JD)
      lat_rad = math.radians(lat)
      angle = math.atan(1 / shadow_len)
      cosH = (math.sin(angle) - math.sin(lat_rad)*math.sin(decl)) / (math.cos(lat_rad)*math.cos(decl))
      cosH = min(1, max(-1, cosH))
      H = math.acos(cosH)
      H_h = math.degrees(H) / 15
      asr_utc = noon_utc + H_h
      hr = int(asr_utc)
      mn = int((asr_utc - hr) * 60)
      dt = datetime(date.year, date.month, date.day, hr, mn, tzinfo=timezone.utc)
      return dt.astimezone(pytz.timezone(tz)).strftime("%H:%M")
  \<close>
  The function is cut at the values the claims speak of: \<open>asr_cosH\<close> is \<open>cosH\<close> after
  the clamp, \<open>asr_hour_angle\<close> is \<open>H\<close>, \<open>asr_utc\<close> is the variable of that name,
  \<open>asr_utc_datetime\<close> is \<open>dt\<close>, \<open>asr_local_hm\<close> the hour and minute that are printed.
\<close>

definition asr_cosH :: "real \<Rightarrow> real \<Rightarrow> real \<Rightarrow> py_error + real" where
  "asr_cosH lat decl shadow_len =
     (let lat_rad = radians lat
      in err_bind (py_div 1 shadow_len) (\<lambda>r.
           let angle = arctan r
           in err_bind (py_div (sin angle - sin lat_rad * sin decl) (cos lat_rad * cos decl))
                (\<lambda>cosH. Inr (min 1 (max (- 1) cosH)))))"

definition asr_hour_angle :: "real \<Rightarrow> real \<Rightarrow> real \<Rightarrow> py_error + real" where
  "asr_hour_angle lat decl shadow_len = err_bind (asr_cosH lat decl shadow_len) py_acos"

definition asr_utc :: "real \<Rightarrow> real \<Rightarrow> pydate \<Rightarrow> real \<Rightarrow> py_error + real" where
  "asr_utc lat lon date shadow_len =
     (let JD = julian_day (year date) (month date) (day date)
      in err_bind (solar_declination JD) (\<lambda>decl.
           let noon_utc = solar_noon lon JD
           in err_bind (asr_hour_angle lat decl shadow_len) (\<lambda>H.
                let H_h = degrees H / 15
                in Inr (noon_utc + H_h))))"

definition asr_utc_datetime ::
  "real \<Rightarrow> real \<Rightarrow> pydate \<Rightarrow> real \<Rightarrow> py_error + (pydate \<times> int \<times> int)" where
  "asr_utc_datetime lat lon date shadow_len =
     err_bind (asr_utc lat lon date shadow_len) (\<lambda>t.
       let hr = py_int t;
           mn = py_int ((t - real_of_int hr) * 60)
       in py_datetime date hr mn)"

definition asr_local_hm ::
  "tzdb \<Rightarrow> real \<Rightarrow> real \<Rightarrow> pydate \<Rightarrow> real \<Rightarrow> string \<Rightarrow> py_error + (int \<times> int)" where
  "asr_local_hm db lat lon date shadow_len tz =
     err_bind (asr_utc_datetime lat lon date shadow_len) (\<lambda>(d, hr, mn).
       err_bind (pytz_timezone db tz) (\<lambda>z. astimezone_hm d hr mn z))"

definition asr_time ::
  "tzdb \<Rightarrow> real \<Rightarrow> real \<Rightarrow> pydate \<Rightarrow> real \<Rightarrow> string \<Rightarrow> py_error + string" where
  "asr_time db lat lon date shadow_len tz =
     err_bind (asr_local_hm db lat lon date shadow_len tz) (\<lambda>hm. Inr (strftime_HM hm))"

section \<open>last_third_time\<close>

text \<open>
  \<^verbatim>\<open>
  def last_third_time(sunset_str, fajr_str, timezone_str, date):
      fmt = "%H:%M"
      tz = pytz.timezone(timezone_str)
      sunset = datetime.strptime(sunset_str, fmt).replace(year=date.year, month=date.month, day=date.day)
      fajr = datetime.strptime(fajr_str, fmt).replace(year=date.year, month=date.month, day=date.day)
      if fajr <= sunset:
          fajr += timedelta(days=1)
      night_duration = fajr - sunset
      last_third = sunset + (night_duration * 2/3)
      return last_third.strftime(fmt)
  \<close>
  Both datetimes carry the same date, so each is its number of microseconds after the
  midnight that starts \<open>date\<close>.
\<close>

definition clock_on_date :: "string \<Rightarrow> pydate \<Rightarrow> py_error + int" where
  "clock_on_date str date =
     err_bind (strptime_HM str) (\<lambda>(h, m).
       if valid_pydate date then Inr ((h * 3600 + m * 60) * 1000000) else Inl ValueError)"

definition add_one_day :: "pydate \<Rightarrow> int \<Rightarrow> py_error + int" where
  "add_one_day date t =
     (if is_max_date date then Inl OverflowError else Inr (t + 86400000000))"

definition last_third_time ::
  "tzdb \<Rightarrow> string \<Rightarrow> string \<Rightarrow> string \<Rightarrow> pydate \<Rightarrow> py_error + string" where
  "last_third_time db sunset_str fajr_str timezone_str date =
     err_bind (pytz_timezone db timezone_str) (\<lambda>tz.
       err_bind (clock_on_date sunset_str date) (\<lambda>sunset.
         err_bind (clock_on_date fajr_str date) (\<lambda>fajr.
           err_bind (if fajr \<le> sunset then add_one_day date fajr else Inr fajr) (\<lambda>fajr'.
             let night_duration = fajr' - sunset;
                 last_third = sunset + divide_and_round (night_duration * 2) 3
             in if 86400000000 \<le> last_third \<and> is_max_date date then Inl OverflowError
                else Inr (strftime_HM ((last_third div 3600000000) mod 24,
                                       (last_third div 60000000) mod 60))))))"

subsection \<open>The last third of the night as the specification words it\<close>

text \<open>Times are minutes after the midnight that starts the reference date;
  \<open>spec_last_third\<close> is \<open>sunset + (dawn - sunset) * 2/3\<close>, with dawn on the next day
  when it is not after sunset.\<close>

definition spec_last_third :: "int \<Rightarrow> int \<Rightarrow> real" where
  "spec_last_third sunset dawn =
     (let dawn' = (if dawn \<le> sunset then dawn + 1440 else dawn)
      in real_of_int sunset + real_of_int (dawn' - sunset) * 2 / 3)"

definition spec_clock :: "real \<Rightarrow> int \<times> int" where
  "spec_clock t = ((\<lfloor>t\<rfloor> div 60) mod 24, \<lfloor>t\<rfloor> mod 60)"

section \<open>Sample inputs\<close>

text \<open>A small time zone database (fixed offsets) and two dates, for concrete instances.\<close>

definition sample_tzdb :: tzdb where
  "sample_tzdb name =
     (if name = ''UTC'' then Some (\<lambda>d h m. 0)
      else if name = ''Asia/Riyadh'' then Some (\<lambda>d h m. 10800)
      else None)"

definition solstice_2000 :: pydate where
  "solstice_2000 = \<lparr>year = 2000, month = 6, day = 27\<rparr>"

definition last_day :: pydate where
  "last_day = \<lparr>year = 9999, month = 12, day = 31\<rparr>"

section \<open>Properties of julian_day\<close>

lemma py_int_year: "0 \<le> k \<Longrightarrow> py_int (365.25 * real_of_int k) = (1461 * k) div 4"
proof -
  assume k: "0 \<le> k"
  have "365.25 * real_of_int k = real_of_int (1461 * k) / real_of_int 4" by simp
  then have "\<lfloor>365.25 * real_of_int k\<rfloor> = (1461 * k) div 4"
    by (simp only: floor_divide_of_int_eq)
  with k show ?thesis by (simp add: py_int_def)
qed

lemma py_int_month: "0 \<le> k \<Longrightarrow> py_int (30.6001 * real_of_int k) = (306001 * k) div 10000"
proof -
  assume k: "0 \<le> k"
  have "30.6001 * real_of_int k = real_of_int (306001 * k) / real_of_int 10000" by simp
  then have "\<lfloor>30.6001 * real_of_int k\<rfloor> = (306001 * k) div 10000"
    by (simp only: floor_divide_of_int_eq)
  with k show ?thesis by (simp add: py_int_def)
qed

lemma julian_day_jdn:
  assumes "- 4715 \<le> y" "1 \<le> m" "m \<le> 12"
  shows "julian_day y m d =
           real_of_int (if m \<le> 2 then jdn (y - 1) (m + 12) d else jdn y m d) - 1524.5"
proof (cases "m \<le> 2")
  case True
  have a: "py_int (365.25 * real_of_int (y - 1 + 4716)) = (1461 * (y - 1 + 4716)) div 4"
    using assms by (intro py_int_year) simp
  have b: "py_int (30.6001 * real_of_int (m + 12 + 1)) = (306001 * (m + 12 + 1)) div 10000"
    using assms by (intro py_int_month) simp
  show ?thesis
    by (simp only: julian_day_def Let_def jdn_def True if_True a b)
next
  case False
  have a: "py_int (365.25 * real_of_int (y + 4716)) = (1461 * (y + 4716)) div 4"
    using assms by (intro py_int_year) simp
  have b: "py_int (30.6001 * real_of_int (m + 1)) = (306001 * (m + 1)) div 10000"
    using assms by (intro py_int_month) simp
  show ?thesis
    by (simp only: julian_day_def Let_def jdn_def False if_False a b)
qed

lemma div_step:
  "0 < (c::int) \<Longrightarrow> y div c = (y - 1) div c + (if y mod c = 0 then 1 else 0)"
proof -
  assume c: "0 < c"
  show ?thesis
  proof (cases "y mod c = 0")
    case True
    then obtain k where k: "y = c * k" by auto
    have "y - 1 = c * (k - 1) + (c - 1)" using k by (simp add: algebra_simps)
    then have "(y - 1) div c = k - 1"
      by (rule int_div_pos_eq) (use c in simp_all)
    then show ?thesis using True k c by simp
  next
    case False
    have "y = c * (y div c) + y mod c" by simp
    then have e: "y - 1 = c * (y div c) + (y mod c - 1)" by simp
    have "0 \<le> y mod c" "y mod c < c" using c by simp_all
    with False have r: "0 \<le> y mod c - 1" "y mod c - 1 < c" by simp_all
    have "(y - 1) div c = y div c"
      by (rule int_div_pos_eq[OF e r])
    then show ?thesis using False by simp
  qed
qed

lemma year_div: "(1461 * k) div 4 = 365 * k + k div (4::int)"
proof -
  have "1461 * k = k + (365 * k) * 4" by simp
  then have "(1461 * k) div 4 = (k + (365 * k) * 4) div 4" by simp
  also have "\<dots> = 365 * k + k div 4" by (rule div_mult_self1) simp
  finally show ?thesis by simp
qed

lemma mod4_shift: "(y + 4716) mod 4 = y mod (4::int)"
proof -
  have "(y + 1179 * 4) mod 4 = y mod 4" by (rule mod_mult_self1)
  then show ?thesis by simp
qed

lemma year_step:
  "(1461 * (y + 4716)) div 4 =
     (1461 * (y - 1 + 4716)) div 4 + 365 + (if y mod 4 = 0 then 1 else (0::int))"
proof -
  have "(y + 4716) div 4 = (y + 4716 - 1) div 4 + (if (y + 4716) mod 4 = 0 then 1 else 0)"
    by (rule div_step) simp
  then have "(y + 4716) div 4 = (y - 1 + 4716) div 4 + (if y mod 4 = 0 then 1 else 0)"
    by (simp add: mod4_shift algebra_simps)
  then show ?thesis by (simp only: year_div) (simp add: algebra_simps)
qed

lemma month_consts:
  "(306001 * (3 + 1)) div 10000 = (122::int)"
  "(306001 * (14 + 1)) div 10000 = (459::int)"
  by simp_all

lemma q400: "((z::int) div 100) div 4 = z div 400"
proof -
  have "z div (100 * 4) = (z div 100) div 4" by (rule zdiv_zmult2_eq) simp
  then show ?thesis by simp
qed

lemma mod_400_100: "(y::int) mod 400 = 0 \<Longrightarrow> y mod 100 = 0"
proof -
  assume "y mod 400 = 0"
  then have "400 dvd y" by (simp only: mod_eq_0_iff_dvd)
  moreover have "(100::int) dvd 400" by simp
  ultimately have "100 dvd y" by (rule dvd_trans[rotated])
  then show ?thesis by (simp only: mod_eq_0_iff_dvd)
qed

lemma mod_100_4: "(y::int) mod 100 = 0 \<Longrightarrow> y mod 4 = 0"
proof -
  assume "y mod 100 = 0"
  then have "100 dvd y" by (simp only: mod_eq_0_iff_dvd)
  moreover have "(4::int) dvd 100" by simp
  ultimately have "4 dvd y" by (rule dvd_trans[rotated])
  then show ?thesis by (simp only: mod_eq_0_iff_dvd)
qed

lemma leap_days:
  "(if is_leap y then 29 else 28) =
     28 + (if y mod 4 = 0 then 1 else 0) - (if y mod 100 = 0 then 1 else 0)
        + (if y mod 400 = 0 then 1 else (0::int))"
proof (cases "y mod 400 = 0")
  case True
  with mod_400_100[OF True] mod_100_4[OF mod_400_100[OF True]] show ?thesis
    by (simp add: is_leap_def)
next
  case n400: False
  show ?thesis
  proof (cases "y mod 100 = 0")
    case True
    with n400 mod_100_4[OF True] show ?thesis by (simp add: is_leap_def)
  next
    case False
    with n400 show ?thesis by (simp add: is_leap_def)
  qed
qed

lemma jdn_feb:
  "jdn y 3 1 = jdn (y - 1) 14 (if is_leap y then 29 else 28) + 1"
proof -
  define a :: int where "a = (if y mod 4 = 0 then 1 else 0)"
  define b :: int where "b = (if y mod 100 = 0 then 1 else 0)"
  define c :: int where "c = (if y mod 400 = 0 then 1 else 0)"
  have ys: "(1461 * (y + 4716)) div 4 = (1461 * (y - 1 + 4716)) div 4 + 365 + a"
    unfolding a_def by (rule year_step)
  have cs: "y div 100 = (y - 1) div 100 + b"
    unfolding b_def by (rule div_step) simp
  have qs: "y div 400 = (y - 1) div 400 + c"
    unfolding c_def by (rule div_step) simp
  have l: "(if is_leap y then 29 else 28) = 28 + a - b + c"
    unfolding a_def b_def c_def by (rule leap_days)
  have "jdn y 3 1 = (1461 * (y + 4716)) div 4 + 122 + 1 + (2 - y div 100 + y div 400)"
    by (simp only: jdn_def q400 month_consts)
  then have e1: "jdn y 3 1 = (1461 * (y - 1 + 4716)) div 4 + 365 + a + 122 + 1
                     + (2 - ((y - 1) div 100 + b) + ((y - 1) div 400 + c))"
    by (simp only: ys cs qs)
  have e2: "jdn (y - 1) 14 (28 + a - b + c) =
       (1461 * (y - 1 + 4716)) div 4 + 459 + (28 + a - b + c)
         + (2 - (y - 1) div 100 + (y - 1) div 400)"
    by (simp only: jdn_def q400 month_consts)
  show ?thesis unfolding l using e1 e2 by linarith
qed

lemma month_cases:
  "1 \<le> m \<Longrightarrow> m \<le> 12 \<Longrightarrow> m \<in> {1, 2, 3, 4, 5, 6, 7, 8, 9, 10, 11, 12::int}"
  by (simp; presburger)

lemma jd_feb_end:
  assumes y: "- 4715 \<le> y"
  shows "julian_day y 3 1 = julian_day y 2 (if is_leap y then 29 else 28) + 1"
proof -
  have "julian_day y 3 1 = real_of_int (jdn y 3 1) - 1524.5"
    using y by (simp add: julian_day_jdn)
  moreover have "julian_day y 2 (if is_leap y then 29 else 28)
      = real_of_int (jdn (y - 1) 14 (if is_leap y then 29 else 28)) - 1524.5"
    using y by (simp add: julian_day_jdn)
  ultimately show ?thesis by (simp only: jdn_feb)
qed

text \<open>
  Claim C5. For every valid Gregorian date (from the year -4715 on, which covers every
  year a Python date can hold), the Julian Day of the next calendar day is the Julian Day
  of the given day plus exactly 1. \<open>julian_day\<close> treats January and February as
  months 13 and 14 of the previous year.
\<close>

theorem julian_day_next_day:
  assumes v: "valid_date y m d" and y: "- 4715 \<le> y"
  shows "(case next_day y m d of (y', m', d') \<Rightarrow> julian_day y' m' d') = julian_day y m d + 1"
proof -
  from v have m: "1 \<le> m" "m \<le> 12" and d: "1 \<le> d" "d \<le> days_in_month y m"
    by (simp_all add: valid_date_def)
  show ?thesis
  proof (cases "d < days_in_month y m")
    case True
    then show ?thesis using m y
      by (simp add: next_day_def julian_day_jdn jdn_def)
  next
    case False
    with d have de: "d = days_in_month y m" by simp
    show ?thesis
    proof (cases "m = 2")
      case True
      then show ?thesis using de jd_feb_end[OF y]
        by (simp add: next_day_def days_in_month_def)
    next
      case m2: False
      from month_cases[OF m] m2 show ?thesis
        using y de
        by (elim insertE emptyE) (simp_all add: next_day_def julian_day_jdn jdn_def days_in_month_def)
    qed
  qed
qed

text \<open>The theorem at the leap day 2024-02-29, whose next day is 2024-03-01.\<close>

theorem julian_day_next_day_witness:
  "valid_date 2024 2 29 \<and> - 4715 \<le> (2024::int) \<and> next_day 2024 2 29 = (2024, 3, 1)
     \<and> julian_day 2024 3 1 = julian_day 2024 2 29 + 1"
  using julian_day_next_day[of 2024 2 29]
  by (simp add: valid_date_def days_in_month_def is_leap_def next_day_def)

section \<open>Properties of the solar position functions\<close>

lemma norm360_range: "0 \<le> norm360 x \<and> norm360 x < 360"
proof -
  define k where "k = \<lfloor>x / 360\<rfloor>"
  have "real_of_int k \<le> x / 360" unfolding k_def by (rule of_int_floor_le)
  then have a: "360 * real_of_int k \<le> x" by simp
  have "x / 360 < real_of_int k + 1" unfolding k_def by linarith
  then have b: "x < 360 * real_of_int k + 360" by simp
  from a b show ?thesis unfolding norm360_def k_def[symmetric] by simp
qed

lemma py_mod_360: "py_mod x 360 = norm360 x"
proof -
  define k where "k = \<lfloor>x / 360\<rfloor>"
  have n: "norm360 x = x - 360 * real_of_int k" by (simp add: norm360_def k_def)
  have r: "0 \<le> norm360 x" "norm360 x < 360" using norm360_range[of x] by simp_all
  show ?thesis
  proof (cases "0 \<le> x")
    case True
    then have "py_int (x / 360) = k" by (simp add: py_int_def k_def)
    then have f: "fmod x 360 = norm360 x" by (simp add: fmod_def n)
    with r show ?thesis by (simp add: py_mod_def Let_def)
  next
    case False
    then have pi: "py_int (x / 360) = \<lceil>x / 360\<rceil>" by (simp add: py_int_def)
    show ?thesis
    proof (cases "norm360 x = 0")
      case True
      then have xk: "x / 360 = real_of_int k" using n by simp
      then have "\<lceil>x / 360\<rceil> = k" by simp
      then have "py_int (x / 360) = k" by (simp only: pi)
      then have "fmod x 360 = x - 360 * real_of_int k" by (simp only: fmod_def)
      then have "fmod x 360 = 0" using True n by simp
      with True show ?thesis by (simp add: py_mod_def Let_def)
    next
      case nz: False
      with r have pos: "0 < norm360 x" by simp
      have "real_of_int k < x / 360" using pos n by simp
      moreover have "x / 360 \<le> real_of_int (k + 1)" using r(2) n by simp
      ultimately have "\<lceil>x / 360\<rceil> = k + 1" by (intro ceiling_unique) simp_all
      then have f: "fmod x 360 = norm360 x - 360" by (simp add: fmod_def pi n algebra_simps)
      from f r pos show ?thesis by (simp add: py_mod_def Let_def)
    qed
  qed
qed

lemma py_mod_360_range: "0 \<le> py_mod x 360 \<and> py_mod x 360 < 360"
  by (simp only: py_mod_360 norm360_range)

lemma sin_prod_bounds: "- 1 \<le> sin a * sin b \<and> sin a * sin b \<le> (1::real)"
proof -
  have "\<bar>sin a * sin b\<bar> = \<bar>sin a\<bar> * \<bar>sin b\<bar>" by (rule abs_mult)
  also have "\<dots> \<le> 1 * 1" by (intro mult_mono) simp_all
  finally show ?thesis by (simp add: abs_le_iff)
qed

text \<open>
  Claim C7. \<open>solar_declination\<close> returns, without raising, the declination of the
  specification: with \<open>n = JD - 2451545.0\<close>, mean anomaly
  \<open>g = (357.529 + 0.98560028 n) mod 360\<close>, mean longitude
  \<open>q = (280.459 + 0.98564736 n) mod 360\<close>, ecliptic longitude
  \<open>L = (q + 1.915 sin g + 0.020 sin 2g) mod 360\<close> and obliquity
  \<open>23.439 - 0.00000036 n\<close> (degrees, converted to radians before each sine), it is
  \<open>arcsin (sin e * sin L)\<close>. Python's \<open>% 360\<close> is the normalisation into
  \<open>[0, 360)\<close> for every argument, negative ones included.
\<close>

theorem solar_declination_formula:
  "solar_declination JD = Inr (spec_declination JD)
   \<and> (\<forall>x. py_mod x 360 = norm360 x \<and> 0 \<le> py_mod x 360 \<and> py_mod x 360 < 360)"
proof -
  have "solar_declination JD = Inr (spec_declination JD)"
    unfolding solar_declination_def Let_def py_mod_360 py_asin_def spec_declination_def
      ecliptic_longitude_def mean_longitude_def mean_anomaly_def obliquity_def
    using sin_prod_bounds by simp
  moreover have "\<forall>x. py_mod x 360 = norm360 x \<and> 0 \<le> py_mod x 360 \<and> py_mod x 360 < 360"
    using py_mod_360 py_mod_360_range by blast
  ultimately show ?thesis by (rule conjI)
qed

text \<open>
  Claim C3. For every Julian Day, the equation of time in hours, after the single
  add-or-subtract-24 step and before the multiplication by 60, lies in \<open>[-12, 12]\<close>.
\<close>

theorem eq_time_hours_range: "- 12 \<le> eq_time_hours JD \<and> eq_time_hours JD \<le> 12"
proof -
  define q where "q = py_mod (280.459 + 0.98564736 * (JD - 2451545.0)) 360"
  define g where "g = radians (py_mod (357.529 + 0.98560028 * (JD - 2451545.0)) 360)"
  define L where "L = py_mod (q + 1.915 * sin g + 0.020 * sin (2 * g)) 360"
  define e where "e = radians (23.439 - 0.00000036 * (JD - 2451545.0))"
  define RA where
    "RA = py_mod (degrees (py_atan2 (cos e * sin (radians L)) (cos (radians L)))) 360"
  have q: "0 \<le> q" "q < 360" using py_mod_360_range unfolding q_def by simp_all
  have r: "0 \<le> RA" "RA < 360" using py_mod_360_range unfolding RA_def by simp_all
  have "eq_time_hours JD =
      (if q / 15 - RA / 15 > 12 then q / 15 - RA / 15 - 24
       else if q / 15 - RA / 15 < - 12 then q / 15 - RA / 15 + 24 else q / 15 - RA / 15)"
    unfolding eq_time_hours_def Let_def q_def g_def L_def e_def RA_def by (rule refl)
  with q r show ?thesis by (simp split: if_splits)
qed

text \<open>
  Claim C8. For every longitude and Julian Day, \<open>solar_noon\<close> is exactly
  \<open>12 - longitude / 15 - eqt / 60\<close>, with \<open>eqt\<close> the equation of time in minutes;
  moving east by \<open>d\<close> degrees makes noon \<open>d / 15\<close> hours earlier.
\<close>

theorem solar_noon_formula:
  "solar_noon longitude JD = 12 - longitude / 15 - equation_of_time JD / 60
   \<and> solar_noon (longitude + d) JD = solar_noon longitude JD - d / 15"
  by (simp add: solar_noon_def Let_def add_divide_distrib)

end
